theory Spec2Isabelle
  imports Main
begin

section \<open>Host paths\<close>

text \<open>
  The loader works on \<^verbatim>\<open>java.nio.file.Path\<close> values of the host. A path is modelled by
  what the Unix implementation keeps of it: whether it is absolute and its name elements.
  \<^verbatim>\<open>Path.of\<close> splits its argument at \<^verbatim>\<open>/\<close> and drops empty elements (repeated and
  trailing separators); it does not remove \<^verbatim>\<open>.\<close> or \<^verbatim>\<open>..\<close> elements.
\<close>

datatype path = Path (absolute: bool) (names: "string list")

text \<open>\<^verbatim>\<open>String.prototype.split\<close> with a one-character separator: empty pieces are kept.\<close>

fun split_on :: "char \<Rightarrow> string \<Rightarrow> string list" where
  "split_on c [] = [[]]"
| "split_on c (x # xs) =
     (if x = c then [] # split_on c xs
      else (case split_on c xs of [] \<Rightarrow> [[x]] | y # ys \<Rightarrow> (x # y) # ys))"

definition Path_of :: "string \<Rightarrow> path" where
  "Path_of s =
     Path (case s of [] \<Rightarrow> False | c # _ \<Rightarrow> c = CHR ''/'')
          (filter (\<lambda>n. n \<noteq> []) (split_on CHR ''/'' s))"

text \<open>\<^verbatim>\<open>p.resolve(other)\<close>: an absolute \<^verbatim>\<open>other\<close> wins, otherwise the names are joined.\<close>

definition resolve :: "path \<Rightarrow> string \<Rightarrow> path" where
  "resolve p other =
     (let q = Path_of other
      in if absolute q then q else Path (absolute p) (names p @ names q))"

text \<open>\<^verbatim>\<open>p.parent\<close> (\<^verbatim>\<open>getParent()\<close>): \<^verbatim>\<open>null\<close> for a root, an empty path and a one-name
  relative path.\<close>

definition parent :: "path \<Rightarrow> path option" where
  "parent p =
     (case names p of
        [] \<Rightarrow> None
      | [n] \<Rightarrow> (if absolute p then Some (Path True []) else None)
      | n # m # ms \<Rightarrow> Some (Path (absolute p) (butlast (names p))))"

section \<open>Frame filter (boot/errors.ts)\<close>

record FrameInfo =
  javaFrame :: bool
  plugin :: string
  source :: string
  methodName :: string
  fileName :: string
  line :: int

definition hiddenScripts :: "string set" where
  "hiddenScripts =
     {''entrypoint'', ''dist/boot/errors.js'', ''dist/boot/require.js'',
      ''dist/boot/sourcemap.js''}"

definition hiddenClasses :: "string set" where
  "hiddenClasses =
     {''fi.valtakausi.craftjs.api.CraftJsContext'',
      ''fi.valtakausi.craftjs.api.JavaInterop'',
      ''org.graalvm.polyglot.Context'',
      ''com.oracle.truffle.polyglot.FunctionProxyHandler''}"

definition startsWith :: "string \<Rightarrow> string \<Rightarrow> bool" where
  "startsWith s p = (take (length p) s = p)"

text \<open>
  \<^verbatim>\<open>showAllFrames\<close> is the value of the system property \<^verbatim>\<open>craftjs.trace.allFrames\<close>; the
  function only tests its truthiness, which is the parameter here.
\<close>

definition shouldEmitFrame :: "bool \<Rightarrow> FrameInfo \<Rightarrow> bool" where
  "shouldEmitFrame showAllFrames frame =
     (if showAllFrames then True
      else if javaFrame frame then
        (if source frame \<in> hiddenClasses then False
         else if startsWith (source frame) ''com.sun.proxy'' then False
         else True)
      else (if source frame \<in> hiddenScripts then False else True))"

section \<open>Values, thrown errors and the host\<close>

text \<open>
  What a \<^verbatim>\<open>throw\<close> can carry as far as the loader tells the cases apart: the loader's own
  \<^verbatim>\<open>ModuleNotFoundError\<close>, a host I/O exception of \<^verbatim>\<open>Files.readString\<close>, a
  \<^verbatim>\<open>TypeError\<close> of a property access on \<^verbatim>\<open>null\<close>, the values \<^verbatim>\<open>null\<close> and
  \<^verbatim>\<open>undefined\<close> themselves (\<open>Nullish\<close>), and any other thrown object, named.
\<close>

datatype thrown =
    ModuleNotFoundError string "path option"
  | IOException path
  | TypeError
  | Nullish
  | Thrown string

text \<open>
  Values that \<^verbatim>\<open>require\<close> returns and the cache holds: a Java package handle (named by its
  segments) or a reference to an object of the script heap.
\<close>

datatype jsval = JUndefined | JPackage "string list" | JRef nat

datatype jsobj = PlainObj | ModuleObj (exports: jsval)

text \<open>
  A module body, as far as the loader can observe it: the calls of \<^verbatim>\<open>require\<close> it makes
  (an error of the call leaves the body), assignments to \<^verbatim>\<open>module.exports\<close>, and a
  \<^verbatim>\<open>throw\<close>.
\<close>

datatype stmt =
    CallRequire string "string option"
  | AssignModuleExports jsval
  | Throw thrown

text \<open>
  The collaborators that are not part of the loader: the plugin layout, the Java package
  graph behind \<^verbatim>\<open>Packages\<close> (a node is named by the segments leading to it, and the host
  says whether it is a \<^verbatim>\<open>java.lang.Package\<close>), the file system, \<^verbatim>\<open>JSON.parse(text).main\<close>
  (\<open>Inl\<close> when parsing, the property access or the use of a value that is no string
  throws; \<open>None\<close> when the field is absent or holds a falsy value that is no string),
  the evaluator \<^verbatim>\<open>__craftjs.eval\<close> (\<open>Inl\<close> for a syntax error), the \<^verbatim>\<open>lineNumber\<close>
  property of a caught value, \<^verbatim>\<open>patchError\<close>, which is defined outside these sources
  (\<open>Some e\<close> when it throws \<open>e\<close>), and the string that the engine converts a member of
  \<^verbatim>\<open>Object.prototype\<close> to (the text of a native function is implementation-defined).
\<close>

record host =
  craftjs_pluginRoot :: path
  craftjscore :: path
  Packages_isPackage :: "string list \<Rightarrow> bool"
  Files_exists :: "path \<Rightarrow> bool"
  Files_isDirectory :: "path \<Rightarrow> bool"
  Files_readString :: "path \<Rightarrow> string option"
  JSON_parse_main :: "string \<Rightarrow> thrown + string option"
  craftjs_eval :: "string \<Rightarrow> thrown + stmt list"
  error_lineNumber :: "thrown \<Rightarrow> int option"
  patchError :: "path \<Rightarrow> string \<Rightarrow> thrown \<Rightarrow> int \<Rightarrow> thrown option"
  String_of_inherited :: "string \<Rightarrow> string"

section \<open>Resolution (boot/require.ts)\<close>

text \<open>\<^verbatim>\<open>resolvePackage\<close>: the loop over the dotted parts, starting at \<^verbatim>\<open>Packages\<close>.\<close>

fun walkPackages :: "host \<Rightarrow> string list \<Rightarrow> string list \<Rightarrow> string list option" where
  "walkPackages h pkg [] = Some pkg"
| "walkPackages h pkg (part # parts) =
     (if Packages_isPackage h (pkg @ [part]) then walkPackages h (pkg @ [part]) parts
      else None)"

definition resolvePackage :: "host \<Rightarrow> string \<Rightarrow> string list option" where
  "resolvePackage h name = walkPackages h [] (split_on CHR ''.'' name)"

text \<open>\<^verbatim>\<open>getEntrypoint\<close>: \<^verbatim>\<open>if (main)\<close> is a truthiness test, so an empty string falls through.\<close>

definition getEntrypoint :: "host \<Rightarrow> path \<Rightarrow> thrown + path option" where
  "getEntrypoint h module =
     (let packageJson = resolve module ''package.json'';
          fallback =
            (let entrypoint = resolve module ''index.js''
             in if Files_exists h entrypoint then Inr (Some entrypoint) else Inr None)
      in if Files_exists h packageJson then
           (case Files_readString h packageJson of
              None \<Rightarrow> Inl (IOException packageJson)
            | Some text \<Rightarrow>
               (case JSON_parse_main h text of
                  Inl e \<Rightarrow> Inl e
                | Inr None \<Rightarrow> fallback
                | Inr (Some main) \<Rightarrow>
                    if main \<noteq> [] then Inr (Some (resolve module main)) else fallback))
         else fallback)"

definition resolveNodeModule :: "host \<Rightarrow> string \<Rightarrow> thrown + path option" where
  "resolveNodeModule h name =
     (let modules = resolve (craftjs_pluginRoot h) ''node_modules''
      in if \<not> Files_isDirectory h modules then Inr None
         else getEntrypoint h (resolve modules name))"

text \<open>
  \<^verbatim>\<open>resolveModule\<close>. The parent is \<^verbatim>\<open>null\<close> when the last required entry point has no
  parent directory; the relative branch then fails on \<^verbatim>\<open>parent.resolve\<close>.
\<close>

definition resolveModule :: "host \<Rightarrow> path option \<Rightarrow> string \<Rightarrow> thrown + path option" where
  "resolveModule h parent_dir name =
     (if name = ''craftjs'' then Inr (Some (craftjscore h))
      else if (case name of [] \<Rightarrow> True | c # _ \<Rightarrow> c \<noteq> CHR ''.'') then resolveNodeModule h name
      else (case parent_dir of
              None \<Rightarrow> Inl TypeError
            | Some dir \<Rightarrow>
               (let module = resolve dir (name @ ''.js'')
                in if Files_exists h module then Inr (Some module) else Inr None)))"

section \<open>Cache, require stack and \<^verbatim>\<open>require\<close>\<close>

text \<open>
  The cache is a JavaScript \<^verbatim>\<open>Map\<close> from strings to values: \<^verbatim>\<open>set\<close> replaces the value of a
  key that is present and appends a new key otherwise.
\<close>

fun Map_set :: "'k \<Rightarrow> 'v \<Rightarrow> ('k \<times> 'v) list \<Rightarrow> ('k \<times> 'v) list" where
  "Map_set k v [] = [(k, v)]"
| "Map_set k v ((k', v') # kvs) =
     (if k' = k then (k, v) # kvs else (k', v') # Map_set k v kvs)"

text \<open>
  The module-level state of \<^verbatim>\<open>require.ts\<close>: \<^verbatim>\<open>cache\<close> and \<^verbatim>\<open>stack\<close>, together with the
  script heap (module records and their \<^verbatim>\<open>exports\<close> objects are told apart by address)
  and what was written to the console.
\<close>

record state =
  cache :: "(string \<times> jsval) list"
  stack :: "path list"
  heap :: "jsobj list"
  console :: "thrown list"

text \<open>
  The override table is an object literal, so \<^verbatim>\<open>overrides[id]\<close> finds its two own
  properties and, for every other name, what the literal inherits from
  \<^verbatim>\<open>Object.prototype\<close>: the members that ECMAScript defines there (Annex B included) are
  functions, and \<^verbatim>\<open>__proto__\<close> is the prototype object itself. None of them is a string
  and none is \<^verbatim>\<open>null\<close> or \<^verbatim>\<open>undefined\<close>.
\<close>

definition Object_prototype_names :: "string list" where
  "Object_prototype_names =
     [''constructor'', ''__defineGetter__'', ''__defineSetter__'', ''hasOwnProperty'',
      ''__lookupGetter__'', ''__lookupSetter__'', ''isPrototypeOf'', ''propertyIsEnumerable'',
      ''toString'', ''valueOf'', ''__proto__'', ''toLocaleString'']"

datatype property = Undefined | StringValue string | Inherited string

definition overrides :: "string \<Rightarrow> property" where
  "overrides ident =
     (if ident = ''path'' then StringValue ''path-browserify''
      else if ident = ''tty'' then StringValue ''tty-browserify''
      else if ident \<in> set Object_prototype_names then Inherited ident
      else Undefined)"

text \<open>
  \<^verbatim>\<open>id = overrides[id] ?? id\<close>: afterwards \<^verbatim>\<open>id\<close> is a string, or the inherited member of
  that name, which is no string.
\<close>

datatype specifier = Name string | NotString string

definition applyOverride :: "string \<Rightarrow> specifier" where
  "applyOverride ident =
     (case overrides ident of
        StringValue r \<Rightarrow> Name r
      | Inherited m \<Rightarrow> NotString m
      | Undefined \<Rightarrow> Name ident)"

text \<open>\<^verbatim>\<open>(relative ?? '/') + id\<close>: string concatenation, which converts a member to a string.\<close>

definition cacheId :: "host \<Rightarrow> string option \<Rightarrow> specifier \<Rightarrow> string" where
  "cacheId h relative ident =
     (case relative of None \<Rightarrow> ''/'' | Some r \<Rightarrow> r)
     @ (case ident of Name n \<Rightarrow> n | NotString m \<Rightarrow> String_of_inherited h m)"

text \<open>
  The parent directory of a require. \<^verbatim>\<open>if (relative)\<close> is a truthiness test: an empty
  string takes the stack branch, as a missing argument does.
\<close>

definition requireParent :: "host \<Rightarrow> string option \<Rightarrow> path list \<Rightarrow> path option" where
  "requireParent h relative stk =
     (case relative of
        Some (c # cs) \<Rightarrow> Some (Path_of (c # cs))
      | _ \<Rightarrow> (if length stk = 0 then Some (resolve (craftjs_pluginRoot h) ''dist'')
              else parent (last stk)))"

definition closure :: "string \<Rightarrow> string" where
  "closure contents =
     [CHR 0x0A] @ ''  (function(module, exports, __filename, __dirname){'' @ [CHR 0x0A]
     @ contents @ [CHR 0x0A] @ ''  })'' @ [CHR 0x0A] @ ''  ''"

text \<open>\<^verbatim>\<open>module.exports\<close>, read from the module record at address \<open>m\<close>.\<close>

definition moduleExports :: "jsobj list \<Rightarrow> nat \<Rightarrow> jsval" where
  "moduleExports hp m =
     (if m < length hp then (case hp ! m of ModuleObj v \<Rightarrow> v | PlainObj \<Rightarrow> JUndefined)
      else JUndefined)"

text \<open>
  A call either does not return (\<open>None\<close>: the recursion of a circular require never ends),
  or throws (\<open>Inl\<close>), or returns a value (\<open>Inr\<close>), in each case with the state it leaves.
\<close>

type_synonym 'a outcome = "((thrown + 'a) \<times> state) option"

text \<open>
  Running a module body with \<^verbatim>\<open>require\<close> bound to \<open>req\<close> and \<^verbatim>\<open>module\<close> bound to the
  record at address \<open>m\<close>.
\<close>

fun runBody :: "(string \<Rightarrow> string option \<Rightarrow> state \<Rightarrow> jsval outcome) \<Rightarrow> nat \<Rightarrow> stmt list
                  \<Rightarrow> state \<Rightarrow> unit outcome" where
  "runBody req m [] s = Some (Inr (), s)"
| "runBody req m (CallRequire ident relative # rest) s =
     (case req ident relative s of
        None \<Rightarrow> None
      | Some (Inl e, s') \<Rightarrow> Some (Inl e, s')
      | Some (Inr v, s') \<Rightarrow> runBody req m rest s')"
| "runBody req m (AssignModuleExports v # rest) s =
     runBody req m rest (s\<lparr>heap := (heap s)[m := ModuleObj v]\<rparr>)"
| "runBody req m (Throw e # rest) s = Some (Inl e, s)"

text \<open>
  The \<^verbatim>\<open>catch\<close> block. Reading \<^verbatim>\<open>error.lineNumber\<close> of a caught \<^verbatim>\<open>null\<close> or
  \<^verbatim>\<open>undefined\<close> throws a \<^verbatim>\<open>TypeError\<close> out of the block; \<^verbatim>\<open>patchError\<close> may throw;
  otherwise the error is written to the console.
\<close>

definition catchBlock :: "host \<Rightarrow> path \<Rightarrow> string \<Rightarrow> thrown \<Rightarrow> state \<Rightarrow> thrown + state" where
  "catchBlock h entrypoint contents error s =
     (if error = Nullish then Inl TypeError
      else
        (let line = (case error_lineNumber h error of
                       None \<Rightarrow> - 1
                     | Some n \<Rightarrow> if n \<noteq> 0 then n - 2 else - 1)
         in case patchError h entrypoint contents error line of
              Some e \<Rightarrow> Inl e
            | None \<Rightarrow> Inr (s\<lparr>console := console s @ [error]\<rparr>)))"

text \<open>
  \<^verbatim>\<open>__require\<close>, in the order of the source: override, cache lookup, Java package, parent
  directory, resolution, push, the fresh \<^verbatim>\<open>exports\<close> and \<^verbatim>\<open>module\<close> objects, reading the
  file (outside the \<^verbatim>\<open>try\<close>), evaluation and call (inside it), \<^verbatim>\<open>cache.set\<close> of the
  module record, pop, and the return of \<^verbatim>\<open>module.exports\<close>. When \<^verbatim>\<open>id\<close> is no string,
  \<^verbatim>\<open>name.split\<close> in \<^verbatim>\<open>resolvePackage\<close> is no function and the call throws a
  \<^verbatim>\<open>TypeError\<close>. The first argument bounds the nesting depth of requires.
\<close>

fun require :: "nat \<Rightarrow> host \<Rightarrow> string \<Rightarrow> string option \<Rightarrow> state \<Rightarrow> jsval outcome" where
  "require 0 h ident0 relative s = None"
| "require (Suc fuel) h ident0 relative s =
     (let ident = applyOverride ident0;
          key = cacheId h relative ident
      in case map_of (cache s) key of
           Some v \<Rightarrow> Some (Inr v, s)
         | None \<Rightarrow>
            (case ident of
               NotString m \<Rightarrow> Some (Inl TypeError, s)
             | Name name \<Rightarrow>
            (case resolvePackage h name of
               Some pkg \<Rightarrow>
                 Some (Inr (JPackage pkg), s\<lparr>cache := Map_set key (JPackage pkg) (cache s)\<rparr>)
             | None \<Rightarrow>
                (let parent_dir = requireParent h relative (stack s)
                 in case resolveModule h parent_dir name of
                      Inl e \<Rightarrow> Some (Inl e, s)
                    | Inr None \<Rightarrow> Some (Inl (ModuleNotFoundError name parent_dir), s)
                    | Inr (Some entrypoint) \<Rightarrow>
                       (let exports_ref = length (heap s);
                            module_ref = Suc exports_ref;
                            s1 = s\<lparr>stack := stack s @ [entrypoint],
                                   heap := heap s @ [PlainObj, ModuleObj (JRef exports_ref)]\<rparr>
                        in case Files_readString h entrypoint of
                             None \<Rightarrow> Some (Inl (IOException entrypoint), s1)
                           | Some contents \<Rightarrow>
                              (case (case craftjs_eval h (closure contents) of
                                       Inl e \<Rightarrow> Some (Inl e, s1)
                                     | Inr body \<Rightarrow>
                                         runBody (require fuel h) module_ref body s1) of
                                 None \<Rightarrow> None
                               | Some (r, s2) \<Rightarrow>
                                  (case (case r of
                                           Inl e \<Rightarrow> catchBlock h entrypoint contents e s2
                                         | Inr u \<Rightarrow> Inr s2) of
                                     Inl e \<Rightarrow> Some (Inl e, s2)
                                   | Inr s3 \<Rightarrow>
                                       Some (Inr (moduleExports (heap s3) module_ref),
                                             s3\<lparr>cache := Map_set key (JRef module_ref) (cache s3),
                                                stack := butlast (stack s3)\<rparr>))))))))"

section \<open>A plugin to run the loader on\<close>

text \<open>
  A plugin rooted at \<^verbatim>\<open>/plugin\<close>, with scripts under \<^verbatim>\<open>dist\<close> and packages under
  \<^verbatim>\<open>node_modules\<close>: \<^verbatim>\<open>badpkg\<close> declares a main file that does not exist, \<^verbatim>\<open>emptymain\<close>
  declares an empty one, the manifest of \<^verbatim>\<open>broken\<close> is no JSON, the manifest of
  \<^verbatim>\<open>locked\<close> exists and cannot be read, and \<^verbatim>\<open>path-browserify\<close> has no manifest.
\<close>

definition quoted :: "string \<Rightarrow> string" where
  "quoted s = CHR 0x22 # s @ [CHR 0x22]"

definition manifest_with_main :: "string \<Rightarrow> string" where
  "manifest_with_main m = ''{'' @ quoted ''main'' @ '':'' @ quoted m @ ''}''"

definition plugin_files :: "(path \<times> string) list" where
  "plugin_files =
     [(Path True [''plugin'', ''dist'', ''.'', ''foo.js''], ''exports.x = 1''),
      (Path True [''plugin'', ''dist'', ''.'', ''a.js''], ''require(`badpkg`)''),
      (Path True [''plugin'', ''dist'', ''.'', ''n.js''], ''throw null''),
      (Path True [''plugin'', ''dist'', ''a'', ''.'', ''util.js''], ''exports.a = 1''),
      (Path True [''plugin'', ''dist'', ''b'', ''.'', ''util.js''], ''exports.b = 1''),
      (Path True [''plugin'', ''node_modules'', ''badpkg'', ''package.json''],
         manifest_with_main ''lib/x.js''),
      (Path True [''plugin'', ''node_modules'', ''emptymain'', ''package.json''],
         manifest_with_main []),
      (Path True [''plugin'', ''node_modules'', ''emptymain'', ''index.js''], ''exports.e = 1''),
      (Path True [''plugin'', ''node_modules'', ''broken'', ''package.json''], ''{''),
      (Path True [''plugin'', ''node_modules'', ''path-browserify'', ''index.js''],
         ''exports.p = 1'')]"

definition plugin_host :: host where
  "plugin_host =
     \<lparr>craftjs_pluginRoot = Path True [''plugin''],
      craftjscore = Path True [''plugin'', ''core'', ''index.js''],
      Packages_isPackage =
        (\<lambda>p. p \<in> {[''java''], [''java'', ''nio''], [''java'', ''nio'', ''file'']}),
      Files_exists =
        (\<lambda>p. p \<in> fst ` set plugin_files
              \<or> p = Path True [''plugin'', ''node_modules'']
              \<or> p = Path True [''plugin'', ''node_modules'', ''locked'', ''package.json'']),
      Files_isDirectory = (\<lambda>p. p = Path True [''plugin'', ''node_modules'']),
      Files_readString = map_of plugin_files,
      JSON_parse_main =
        (\<lambda>text. if text = manifest_with_main ''lib/x.js'' then Inr (Some ''lib/x.js'')
                else if text = manifest_with_main [] then Inr (Some [])
                else if text = ''{}'' then Inr None
                else Inl (Thrown ''SyntaxError'')),
      craftjs_eval =
        (\<lambda>text. if text = closure ''require(`badpkg`)'' then Inr [CallRequire ''badpkg'' None]
                else if text = closure ''throw null'' then Inr [Throw Nullish]
                else Inr []),
      error_lineNumber = (\<lambda>e. None),
      patchError = (\<lambda>entrypoint contents e n. None),
      String_of_inherited =
        (\<lambda>m. if m = ''__proto__'' then ''[object Object]''
             else if m = ''constructor'' then ''function Object() { [native code] }''
             else ''function '' @ m @ ''() { [native code] }'')\<rparr>"


definition dist_dir :: path where
  "dist_dir = Path True [''plugin'', ''dist'']"

definition modules_dir :: path where
  "modules_dir = Path True [''plugin'', ''node_modules'']"

definition x_js :: path where
  "x_js = Path True [''plugin'', ''node_modules'', ''badpkg'', ''lib'', ''x.js'']"

definition stack_in_a :: "path list" where
  "stack_in_a = [Path True [''plugin'', ''dist'', ''a'', ''index.js'']]"

definition stack_in_b :: "path list" where
  "stack_in_b = [Path True [''plugin'', ''dist'', ''b'', ''index.js'']]"


definition initial :: state where
  "initial = \<lparr>cache = [], stack = [], heap = [], console = []\<rparr>"

definition after_foo :: state where
  "after_foo = \<lparr>cache = [(''/./foo'', JRef 1)], stack = [],
                 heap = [PlainObj, ModuleObj (JRef 0)], console = []\<rparr>"

definition after_util :: state where
  "after_util = \<lparr>cache = [(''/./util'', JRef 1)], stack = stack_in_a,
                  heap = [PlainObj, ModuleObj (JRef 0)], console = []\<rparr>"




definition frame_Context :: FrameInfo where
  "frame_Context = \<lparr>javaFrame = True, plugin = ''p'',
     source = ''org.graalvm.polyglot.Context'', methodName = ''eval'',
     fileName = ''Context.java'', line = 1\<rparr>"

definition frame_proxy :: FrameInfo where
  "frame_proxy = \<lparr>javaFrame = True, plugin = ''p'',
     source = ''com.sun.proxy.$Proxy12'', methodName = ''run'',
     fileName = ''Proxy'', line = 1\<rparr>"

definition frame_require :: FrameInfo where
  "frame_require = \<lparr>javaFrame = False, plugin = ''p'',
     source = ''dist/boot/require.js'', methodName = ''__require'',
     fileName = ''require.js'', line = 90\<rparr>"

definition frame_script :: FrameInfo where
  "frame_script = \<lparr>javaFrame = False, plugin = ''p'',
     source = ''org.graalvm.polyglot.Context'', methodName = ''f'',
     fileName = ''x.js'', line = 3\<rparr>"

section \<open>Facts about the cache, the override table and paths\<close>






lemma split_on_not_Nil: "split_on c s \<noteq> []"
  by (induction s) (auto split: list.splits)

text \<open>The pieces of a split, glued together, are the string without its separators.\<close>

lemma concat_split_on:
  "concat (filter (\<lambda>n. n \<noteq> []) (split_on c s)) = filter (\<lambda>x. x \<noteq> c) s"
proof (induction s)
  case Nil
  show ?case by simp
next
  case (Cons x xs)
  show ?case
  proof (cases "split_on c xs")
    case Nil
    then show ?thesis using split_on_not_Nil [of c xs] by simp
  next
    case (Cons y ys)
    with Cons.IH show ?thesis by (auto split: if_splits)
  qed
qed

lemma names_Path_of_append_differs:
  "names (Path_of (s @ ''.js'')) \<noteq> names (Path_of s)"
proof
  assume "names (Path_of (s @ ''.js'')) = names (Path_of s)"
  then have "concat (names (Path_of (s @ ''.js''))) = concat (names (Path_of s))"
    by simp
  then have "filter (\<lambda>x. x \<noteq> CHR ''/'') (s @ ''.js'') = filter (\<lambda>x. x \<noteq> CHR ''/'') s"
    by (simp add: Path_of_def concat_split_on)
  then have "length (filter (\<lambda>x. x \<noteq> CHR ''/'') (s @ ''.js''))
             = length (filter (\<lambda>x. x \<noteq> CHR ''/'') s)"
    by simp
  then show False by simp
qed

lemma resolve_relative:
  "resolve D (CHR ''.'' # rest) =
     Path (absolute D) (names D @ names (Path_of (CHR ''.'' # rest)))"
  by (simp add: resolve_def Path_of_def)

lemma resolveModule_relative:
  "resolveModule h (Some D) (CHR ''.'' # rest) =
     Inr (if Files_exists h (resolve D (CHR ''.'' # rest @ ''.js''))
          then Some (resolve D (CHR ''.'' # rest @ ''.js'')) else None)"
  by (simp add: resolveModule_def)


section \<open>The branches of \<^verbatim>\<open>require\<close> before a file is loaded\<close>


lemma require_not_string:
  "map_of (cache s) (cacheId h relative (applyOverride ident)) = None \<Longrightarrow>
   applyOverride ident = NotString m \<Longrightarrow>
   require (Suc fuel) h ident relative s = Some (Inl TypeError, s)"
  by simp



text \<open>
  A specifier that names a member of \<^verbatim>\<open>Object.prototype\<close> is replaced by that member, and
  the require throws a \<^verbatim>\<open>TypeError\<close>.
\<close>

lemma require_inherited_member_throws:
  "require (Suc 0) plugin_host ''constructor'' None initial = Some (Inl TypeError, initial)
   \<and> require (Suc 0) plugin_host ''toString'' None initial = Some (Inl TypeError, initial)
   \<and> require (Suc 0) plugin_host ''__proto__'' None initial = Some (Inl TypeError, initial)"
  by code_simp

section \<open>The cache key\<close>

text \<open>
  C1, on the code. A module in \<^verbatim>\<open>/plugin/dist/a\<close> requires \<^verbatim>\<open>./util\<close>, which loads
  \<^verbatim>\<open>a/util.js\<close> and stores it under the key \<^verbatim>\<open>/./util\<close>: without a directory argument
  the key holds the fixed string \<^verbatim>\<open>/\<close> in place of the current directory. The same
  require made from a module in \<^verbatim>\<open>/plugin/dist/b\<close>, where \<^verbatim>\<open>b/util.js\<close> exists, then hits
  that entry: the two requires from different directories occupy one cache entry.
\<close>

theorem cache_entry_shared_across_directories:
  "requireParent plugin_host None stack_in_a = Some (Path True [''plugin'', ''dist'', ''a''])
   \<and> requireParent plugin_host None stack_in_b = Some (Path True [''plugin'', ''dist'', ''b''])
   \<and> Files_exists plugin_host (resolve (Path True [''plugin'', ''dist'', ''b'']) ''./util.js'')
   \<and> require (Suc 0) plugin_host ''./util'' None (initial\<lparr>stack := stack_in_a\<rparr>)
       = Some (Inr (JRef 0), after_util)
   \<and> require (Suc 0) plugin_host ''./util'' None (after_util\<lparr>stack := stack_in_b\<rparr>)
       = Some (Inr (JRef 1), after_util\<lparr>stack := stack_in_b\<rparr>)
   \<and> cache (after_util\<lparr>stack := stack_in_b\<rparr>) = [(''/./util'', JRef 1)]"
  by code_simp

section \<open>Requiring a file twice\<close>

text \<open>
  C2, on the code. The first \<^verbatim>\<open>require('./foo')\<close> returns \<^verbatim>\<open>module.exports\<close> (the object
  at address 0) and stores the module record (address 1) in the cache; the second call
  returns what the cache holds, the module record, without reading or running the file
  again. The two calls return different references.
\<close>

theorem second_require_returns_module_record:
  "require (Suc 0) plugin_host ''./foo'' None initial = Some (Inr (JRef 0), after_foo)
   \<and> require (Suc 0) plugin_host ''./foo'' None after_foo = Some (Inr (JRef 1), after_foo)
   \<and> heap after_foo = [PlainObj, ModuleObj (JRef 0)]"
  by code_simp

section \<open>Failing module bodies and failing reads\<close>

text \<open>
  C3, on the code. The body of \<^verbatim>\<open>a.js\<close> requires \<^verbatim>\<open>badpkg\<close>, whose declared main file
  cannot be read: the nested require throws after its push, the body of \<^verbatim>\<open>a.js\<close> raises
  with it, the error is caught and logged, a cache entry is made, and the pop removes the
  entry of the nested require. The require of \<^verbatim>\<open>./a\<close> returns with the stack one entry
  deeper than before. The body of \<^verbatim>\<open>n.js\<close> is \<^verbatim>\<open>throw null\<close>: the \<^verbatim>\<open>catch\<close> block
  itself throws a \<^verbatim>\<open>TypeError\<close> to the caller, no cache entry is made and nothing is
  popped.
\<close>

theorem failing_body_leaves_stack_entry:
  "require (Suc (Suc 0)) plugin_host ''./a'' None initial =
     Some (Inr (JRef 0),
           \<lparr>cache = [(''/./a'', JRef 1)],
            stack = [Path True [''plugin'', ''dist'', ''.'', ''a.js'']],
            heap = [PlainObj, ModuleObj (JRef 0), PlainObj, ModuleObj (JRef 2)],
            console = [IOException x_js]\<rparr>)
   \<and> require (Suc 0) plugin_host ''./n'' None initial =
     Some (Inl TypeError,
           \<lparr>cache = [], stack = [Path True [''plugin'', ''dist'', ''.'', ''n.js'']],
            heap = [PlainObj, ModuleObj (JRef 0)], console = []\<rparr>)"
  by code_simp

text \<open>
  C4, on the code. \<^verbatim>\<open>require('badpkg')\<close> resolves to the declared main file, pushes it and
  fails to read it: the I/O error reaches the caller and the entry stays on the stack.
\<close>

theorem read_failure_skips_stack_pop:
  "resolveModule plugin_host (requireParent plugin_host None (stack initial)) ''badpkg''
     = Inr (Some x_js)
   \<and> Files_readString plugin_host x_js = None
   \<and> require (Suc 0) plugin_host ''badpkg'' None initial =
       Some (Inl (IOException x_js),
             \<lparr>cache = [], stack = [x_js], heap = [PlainObj, ModuleObj (JRef 0)],
              console = []\<rparr>)"
  by code_simp

section \<open>The override table comes first\<close>



section \<open>Relative specifiers\<close>




text \<open>
  C10. For a relative specifier the resolver appends \<^verbatim>\<open>.js\<close> before it resolves against
  the directory, whatever the specifier ends in: the result is that path when it exists and
  \<^verbatim>\<open>null\<close> otherwise, and that path is never the path of the specifier itself. For
  \<^verbatim>\<open>./foo.js\<close> the only candidate is \<^verbatim>\<open>foo.js.js\<close>.
\<close>

theorem relative_specifier_appends_js:
  assumes "ident = CHR ''.'' # rest"
  shows "resolveModule h (Some D) ident =
           Inr (if Files_exists h (resolve D (ident @ ''.js''))
                then Some (resolve D (ident @ ''.js'')) else None)
         \<and> resolve D (ident @ ''.js'') \<noteq> resolve D ident"
proof -
  have "resolve D (ident @ ''.js'') \<noteq> resolve D ident"
    using names_Path_of_append_differs [of ident] resolve_relative [of D rest]
      resolve_relative [of D "rest @ ''.js''"] assms by simp
  then show ?thesis using assms by (simp add: resolveModule_relative)
qed

theorem relative_specifier_appends_js_witness:
  "Files_exists plugin_host (resolve dist_dir ''./foo.js'')
   \<and> \<not> Files_exists plugin_host (resolve dist_dir (''./foo.js'' @ ''.js''))
   \<and> resolve dist_dir (''./foo.js'' @ ''.js'')
       = Path True [''plugin'', ''dist'', ''.'', ''foo.js.js'']
   \<and> resolveModule plugin_host (Some dist_dir) ''./foo.js'' = Inr None
   \<and> resolve dist_dir (''./foo.js'' @ ''.js'') \<noteq> resolve dist_dir ''./foo.js''"
proof -
  have e: "Files_exists plugin_host (resolve dist_dir ''./foo.js'')"
    by code_simp
  have n: "\<not> Files_exists plugin_host (resolve dist_dir (''./foo.js'' @ ''.js''))"
    by code_simp
  have r: "resolve dist_dir (''./foo.js'' @ ''.js'')
             = Path True [''plugin'', ''dist'', ''.'', ''foo.js.js'']"
    by code_simp
  from n relative_specifier_appends_js [of "''./foo.js''" "''/foo.js''" plugin_host dist_dir]
  have "resolveModule plugin_host (Some dist_dir) ''./foo.js'' = Inr None
      \<and> resolve dist_dir (''./foo.js'' @ ''.js'') \<noteq> resolve dist_dir ''./foo.js''"
    by simp
  with e n r show ?thesis by blast
qed

section \<open>Package entry points\<close>

text \<open>
  C7, as amended. When the manifest exists, is read and parsed, and declares a non-empty
  main, the resolver returns the package directory joined with it, without a test that the
  file exists. When there is no manifest, or the manifest is read and parsed and declares
  no main or an empty one, it returns \<^verbatim>\<open>index.js\<close> in the package directory if that file
  exists and \<^verbatim>\<open>null\<close> otherwise. When the manifest exists and cannot be read or parsed,
  the error is thrown to the caller.
\<close>

theorem getEntrypoint_cases:
  "(Files_exists h (resolve dir ''package.json'') \<and>
    Files_readString h (resolve dir ''package.json'') = Some text \<and>
    JSON_parse_main h text = Inr (Some main) \<and> main \<noteq> [] \<longrightarrow>
      getEntrypoint h dir = Inr (Some (resolve dir main)))
   \<and> (\<not> Files_exists h (resolve dir ''package.json'') \<or>
      (Files_readString h (resolve dir ''package.json'') = Some text \<and>
       (JSON_parse_main h text = Inr None \<or> JSON_parse_main h text = Inr (Some []))) \<longrightarrow>
      getEntrypoint h dir =
        (if Files_exists h (resolve dir ''index.js'')
         then Inr (Some (resolve dir ''index.js'')) else Inr None))
   \<and> (Files_exists h (resolve dir ''package.json'') \<and>
      Files_readString h (resolve dir ''package.json'') = Some text \<and>
      JSON_parse_main h text = Inl e \<longrightarrow> getEntrypoint h dir = Inl e)
   \<and> (Files_exists h (resolve dir ''package.json'') \<and>
      Files_readString h (resolve dir ''package.json'') = None \<longrightarrow>
      getEntrypoint h dir = Inl (IOException (resolve dir ''package.json'')))"
  by (auto simp: getEntrypoint_def Let_def)

theorem getEntrypoint_cases_witness:
  "Files_exists plugin_host (resolve (resolve modules_dir ''badpkg'') ''package.json'')
   \<and> Files_readString plugin_host (resolve (resolve modules_dir ''badpkg'') ''package.json'')
       = Some (manifest_with_main ''lib/x.js'')
   \<and> JSON_parse_main plugin_host (manifest_with_main ''lib/x.js'') = Inr (Some ''lib/x.js'')
   \<and> ''lib/x.js'' \<noteq> []
   \<and> getEntrypoint plugin_host (resolve modules_dir ''badpkg'')
       = Inr (Some (resolve (resolve modules_dir ''badpkg'') ''lib/x.js''))
   \<and> \<not> Files_exists plugin_host (resolve (resolve modules_dir ''badpkg'') ''lib/x.js'')
   \<and> \<not> Files_exists plugin_host
         (resolve (resolve modules_dir ''path-browserify'') ''package.json'')
   \<and> getEntrypoint plugin_host (resolve modules_dir ''path-browserify'')
       = Inr (Some (resolve (resolve modules_dir ''path-browserify'') ''index.js''))
   \<and> \<not> Files_exists plugin_host (resolve (resolve modules_dir ''absent'') ''package.json'')
   \<and> getEntrypoint plugin_host (resolve modules_dir ''absent'') = Inr None
   \<and> JSON_parse_main plugin_host ''{'' = Inl (Thrown ''SyntaxError'')
   \<and> getEntrypoint plugin_host (resolve modules_dir ''broken'') = Inl (Thrown ''SyntaxError'')
   \<and> Files_readString plugin_host (resolve (resolve modules_dir ''locked'') ''package.json'')
       = None
   \<and> getEntrypoint plugin_host (resolve modules_dir ''locked'')
       = Inl (IOException (resolve (resolve modules_dir ''locked'') ''package.json''))"
proof -
  have a1: "Files_exists plugin_host (resolve (resolve modules_dir ''badpkg'') ''package.json'')"
    by code_simp
  have a2: "Files_readString plugin_host
              (resolve (resolve modules_dir ''badpkg'') ''package.json'')
            = Some (manifest_with_main ''lib/x.js'')"
    by code_simp
  have a3: "JSON_parse_main plugin_host (manifest_with_main ''lib/x.js'')
            = Inr (Some ''lib/x.js'')"
    by code_simp
  have a4: "\<not> Files_exists plugin_host (resolve (resolve modules_dir ''badpkg'') ''lib/x.js'')"
    by code_simp
  have b1: "\<not> Files_exists plugin_host
              (resolve (resolve modules_dir ''path-browserify'') ''package.json'')"
    by code_simp
  have b2: "Files_exists plugin_host
              (resolve (resolve modules_dir ''path-browserify'') ''index.js'')"
    by code_simp
  have c1: "\<not> Files_exists plugin_host (resolve (resolve modules_dir ''absent'') ''package.json'')"
    by code_simp
  have c2: "\<not> Files_exists plugin_host (resolve (resolve modules_dir ''absent'') ''index.js'')"
    by code_simp
  have d1: "Files_exists plugin_host (resolve (resolve modules_dir ''broken'') ''package.json'')"
    by code_simp
  have d2: "Files_readString plugin_host
              (resolve (resolve modules_dir ''broken'') ''package.json'') = Some ''{''"
    by code_simp
  have d3: "JSON_parse_main plugin_host ''{'' = Inl (Thrown ''SyntaxError'')"
    by code_simp
  have e1: "Files_exists plugin_host (resolve (resolve modules_dir ''locked'') ''package.json'')"
    by code_simp
  have e2: "Files_readString plugin_host
              (resolve (resolve modules_dir ''locked'') ''package.json'') = None"
    by code_simp
  have n: "''lib/x.js'' \<noteq> []"
    by simp
  from a1 a2 a3 a4 n
    getEntrypoint_cases [of plugin_host "resolve modules_dir ''badpkg''"
      "manifest_with_main ''lib/x.js''" "''lib/x.js''"]
  have A: "getEntrypoint plugin_host (resolve modules_dir ''badpkg'')
       = Inr (Some (resolve (resolve modules_dir ''badpkg'') ''lib/x.js''))"
    by blast
  from b1 b2 getEntrypoint_cases [of plugin_host "resolve modules_dir ''path-browserify''"]
  have B: "getEntrypoint plugin_host (resolve modules_dir ''path-browserify'')
       = Inr (Some (resolve (resolve modules_dir ''path-browserify'') ''index.js''))"
    by simp
  from c1 c2 getEntrypoint_cases [of plugin_host "resolve modules_dir ''absent''"]
  have C: "getEntrypoint plugin_host (resolve modules_dir ''absent'') = Inr None"
    by simp
  from d1 d2 d3
    getEntrypoint_cases [of plugin_host "resolve modules_dir ''broken''" "''{''" _
      "Thrown ''SyntaxError''"]
  have D: "getEntrypoint plugin_host (resolve modules_dir ''broken'')
             = Inl (Thrown ''SyntaxError'')"
    by blast
  from e1 e2 getEntrypoint_cases [of plugin_host "resolve modules_dir ''locked''"]
  have E: "getEntrypoint plugin_host (resolve modules_dir ''locked'')
       = Inl (IOException (resolve (resolve modules_dir ''locked'') ''package.json''))"
    by blast
  from a1 a2 a3 a4 n A b1 B c1 C d3 D e2 E show ?thesis by blast
qed

text \<open>
  C7 as stated fails. The manifest of \<^verbatim>\<open>emptymain\<close> exists and declares the main field
  \<^verbatim>\<open>""\<close>: the resolver does not return the package directory joined with it but falls
  back to \<^verbatim>\<open>index.js\<close>. The manifest of \<^verbatim>\<open>broken\<close> exists and declares nothing: the
  resolver returns neither the default entry file nor \<^verbatim>\<open>null\<close>, it throws.
\<close>

theorem getEntrypoint_declared_main_counterexample:
  "Files_exists plugin_host (resolve (resolve modules_dir ''emptymain'') ''package.json'')
   \<and> Files_readString plugin_host (resolve (resolve modules_dir ''emptymain'') ''package.json'')
       = Some (manifest_with_main [])
   \<and> JSON_parse_main plugin_host (manifest_with_main []) = Inr (Some [])
   \<and> getEntrypoint plugin_host (resolve modules_dir ''emptymain'')
       = Inr (Some (resolve (resolve modules_dir ''emptymain'') ''index.js''))
   \<and> getEntrypoint plugin_host (resolve modules_dir ''emptymain'')
       \<noteq> Inr (Some (resolve (resolve modules_dir ''emptymain'') []))
   \<and> Files_exists plugin_host (resolve (resolve modules_dir ''broken'') ''package.json'')
   \<and> getEntrypoint plugin_host (resolve modules_dir ''broken'') = Inl (Thrown ''SyntaxError'')"
  by code_simp

section \<open>Java packages\<close>




section \<open>The frame filter\<close>

text \<open>
  C9. A frame is hidden exactly when the diagnostic override is inactive and either it is a
  host frame whose source is in the hidden-class set or starts with the internal-proxy prefix
  \<^verbatim>\<open>com.sun.proxy\<close>, or it is a script frame whose source is in the hidden-script set. With
  the override active every frame is emitted.
\<close>

theorem shouldEmitFrame_hides_exactly:
  "((\<not> shouldEmitFrame showAll frame) =
      (\<not> showAll \<and>
       (javaFrame frame \<and>
          (source frame \<in> hiddenClasses \<or> startsWith (source frame) ''com.sun.proxy'')
        \<or> \<not> javaFrame frame \<and> source frame \<in> hiddenScripts)))
   \<and> shouldEmitFrame True frame"
  by (simp add: shouldEmitFrame_def)

theorem shouldEmitFrame_hides_exactly_witness:
  "shouldEmitFrame True frame_Context
   \<and> \<not> shouldEmitFrame False frame_Context
   \<and> \<not> shouldEmitFrame False frame_proxy
   \<and> \<not> shouldEmitFrame False frame_require
   \<and> shouldEmitFrame False frame_script"
  using shouldEmitFrame_hides_exactly [of True frame_Context]
    shouldEmitFrame_hides_exactly [of False frame_Context]
    shouldEmitFrame_hides_exactly [of False frame_proxy]
    shouldEmitFrame_hides_exactly [of False frame_require]
    shouldEmitFrame_hides_exactly [of False frame_script]
  by (simp add: hiddenClasses_def hiddenScripts_def startsWith_def
      frame_Context_def frame_proxy_def frame_require_def frame_script_def)

end
